theory Spec2Isabelle
  imports Main
begin

section \<open>botpress-messenger: the Messenger connector and its profile cache\<close>

text \<open>
  A shallow embedding of \<^verbatim>\<open>src/messenger.js\<close> (class \<^verbatim>\<open>Messenger\<close>) and
  \<^verbatim>\<open>src/src/users.js\<close> (the user-profile cache). JavaScript strings are
  \<open>string\<close>; every function below that inspects characters only distinguishes
  the ASCII letters and digits from everything else.
\<close>

subsection \<open>JavaScript values\<close>

text \<open>
  The values that flow through the untyped parts of the code (button lists given by the
  caller, bodies of requests, JSON returned by the remote API). Numbers are restricted to
  integers; nothing below computes with a number taken from a \<open>js\<close> value except to test
  it for being zero. An array carries its elements and the named properties assigned to it.
  \<open>Fn\<close> stands for a function or other built-in object of the runtime, named.
\<close>

datatype js =
    Undefined
  | Null
  | Bool bool
  | Num int
  | Str string
  | Arr "js list" "(string \<times> js) list"
  | Obj "(string \<times> js) list"
  | Fn string

text \<open>Truthiness, as \<^verbatim>\<open>if (v)\<close>, \<^verbatim>\<open>v && w\<close> and \<^verbatim>\<open>v || w\<close> test it.\<close>

fun truthy :: "js \<Rightarrow> bool" where
  "truthy Undefined = False"
| "truthy Null = False"
| "truthy (Bool b) = b"
| "truthy (Num n) = (n \<noteq> 0)"
| "truthy (Str s) = (s \<noteq> [])"
| "truthy (Arr xs ps) = True"
| "truthy (Obj ps) = True"
| "truthy (Fn f) = True"

text \<open>
  Reading a property, \<^verbatim>\<open>v[k]\<close> or \<^verbatim>\<open>v.k\<close>, of a value that is neither
  \<^verbatim>\<open>undefined\<close> nor \<^verbatim>\<open>null\<close>. An object gives its own property, else what it
  inherits from \<^verbatim>\<open>Object.prototype\<close>, else \<^verbatim>\<open>undefined\<close>. The names read from
  arrays, functions and primitive values below (\<^verbatim>\<open>title\<close>, \<^verbatim>\<open>gender\<close>, ...) are
  defined by none of their prototypes.
\<close>

definition object_prototype_keys :: "string list" where
  "object_prototype_keys =
     [''constructor'', ''__proto__'', ''hasOwnProperty'', ''isPrototypeOf'',
      ''propertyIsEnumerable'', ''toLocaleString'', ''toString'', ''valueOf'',
      ''__defineGetter__'', ''__defineSetter__'', ''__lookupGetter__'', ''__lookupSetter__'']"

fun get_prop :: "js \<Rightarrow> string \<Rightarrow> js" where
  "get_prop (Obj ps) k =
     (case map_of ps k of
        Some v \<Rightarrow> v
      | None \<Rightarrow> if k \<in> set object_prototype_keys then Fn k else Undefined)"
| "get_prop (Arr xs ps) k = (case map_of ps k of Some v \<Rightarrow> v | None \<Rightarrow> Undefined)"
| "get_prop v k = Undefined"

text \<open>
  Assigning a property, \<^verbatim>\<open>o[k] = v\<close>, on a property list: an existing own property
  keeps its place, a new one goes last. (The engine lists the properties whose names
  are array indices first; no statement below depends on the place of a property.)
\<close>

fun set_prop :: "string \<Rightarrow> js \<Rightarrow> (string \<times> js) list \<Rightarrow> (string \<times> js) list" where
  "set_prop k v [] = [(k, v)]"
| "set_prop k v ((k', v') # ps) = (if k' = k then (k, v) # ps else (k', v') # set_prop k v ps)"

subsection \<open>JSON texts\<close>

text \<open>
  \<^verbatim>\<open>JSON.stringify\<close> and \<^verbatim>\<open>JSON.parse\<close> are the runtime's. A JSON text is kept as
  the value it denotes, \<open>JsonText v\<close>; any other text is a \<open>PlainText\<close>, on which
  \<^verbatim>\<open>JSON.parse\<close> throws a \<^verbatim>\<open>SyntaxError\<close>. What \<^verbatim>\<open>JSON.stringify\<close> writes of a
  value is what the language standard (SerializeJSONProperty) keeps of it: nothing of
  \<^verbatim>\<open>undefined\<close> or of a function, which is left out of an object and written
  \<^verbatim>\<open>null\<close> in an array; of an array its elements and none of its named properties;
  of an object its properties in their order.
\<close>

datatype file_text = JsonText js | PlainText string

fun to_json :: "js \<Rightarrow> js option"
  and to_json_elements :: "js list \<Rightarrow> js list"
  and to_json_properties :: "(string \<times> js) list \<Rightarrow> (string \<times> js) list" where
  "to_json Undefined = None"
| "to_json Null = Some Null"
| "to_json (Bool b) = Some (Bool b)"
| "to_json (Num n) = Some (Num n)"
| "to_json (Str s) = Some (Str s)"
| "to_json (Arr xs ps) = Some (Arr (to_json_elements xs) [])"
| "to_json (Obj ps) = Some (Obj (to_json_properties ps))"
| "to_json (Fn f) = None"
| "to_json_elements [] = []"
| "to_json_elements (x # xs) =
     (case to_json x of None \<Rightarrow> Null | Some j \<Rightarrow> j) # to_json_elements xs"
| "to_json_properties [] = []"
| "to_json_properties (p # ps) =
     (case to_json (snd p) of
        None \<Rightarrow> to_json_properties ps
      | Some j \<Rightarrow> (fst p, j) # to_json_properties ps)"

definition JSON_stringify :: "js \<Rightarrow> file_text option" where
  "JSON_stringify v = map_option JsonText (to_json v)"

definition JSON_parse :: "file_text \<Rightarrow> string + js" where
  "JSON_parse t = (case t of JsonText v \<Rightarrow> Inr v | PlainText s \<Rightarrow> Inl ''SyntaxError'')"

text \<open>
  The values that are JSON data: no \<^verbatim>\<open>undefined\<close>, no function, no array with named
  properties, at any depth.
\<close>

fun json_value :: "js \<Rightarrow> bool"
  and json_elements :: "js list \<Rightarrow> bool"
  and json_properties :: "(string \<times> js) list \<Rightarrow> bool" where
  "json_value Undefined = False"
| "json_value Null = True"
| "json_value (Bool b) = True"
| "json_value (Num n) = True"
| "json_value (Str s) = True"
| "json_value (Arr xs ps) = (ps = [] \<and> json_elements xs)"
| "json_value (Obj ps) = json_properties ps"
| "json_value (Fn f) = False"
| "json_elements [] = True"
| "json_elements (x # xs) = (json_value x \<and> json_elements xs)"
| "json_properties [] = True"
| "json_properties (p # ps) = (json_value (snd p) \<and> json_properties ps)"

subsection \<open>Label normalisation (messenger.js, lines 7-9)\<close>

text \<open>
  \<^verbatim>\<open>str.replace(/[^a-zA-Z0-9]+/g, '').toUpperCase()\<close>. The global replacement deletes
  every maximal run of characters outside \<^verbatim>\<open>[a-zA-Z0-9]\<close>, which leaves exactly the
  characters of the class, in order. What \<^verbatim>\<open>toUpperCase\<close> then receives holds ASCII
  letters and digits only, where it maps \<^verbatim>\<open>a\<close>..\<^verbatim>\<open>z\<close> to \<^verbatim>\<open>A\<close>..\<^verbatim>\<open>Z\<close> and keeps
  the rest.
\<close>

definition is_lower :: "char \<Rightarrow> bool" where
  "is_lower c = (97 \<le> (of_char c :: nat) \<and> (of_char c :: nat) \<le> 122)"

definition is_upper :: "char \<Rightarrow> bool" where
  "is_upper c = (65 \<le> (of_char c :: nat) \<and> (of_char c :: nat) \<le> 90)"

definition is_digit :: "char \<Rightarrow> bool" where
  "is_digit c = (48 \<le> (of_char c :: nat) \<and> (of_char c :: nat) \<le> 57)"

definition is_alnum :: "char \<Rightarrow> bool" where
  "is_alnum c = (is_lower c \<or> is_upper c \<or> is_digit c)"

definition strip_non_alnum :: "string \<Rightarrow> string" where
  "strip_non_alnum str = filter is_alnum str"

definition upper_char :: "char \<Rightarrow> char" where
  "upper_char c = (if is_lower c then char_of ((of_char c :: nat) - 32) else c)"

definition toUpperCase :: "string \<Rightarrow> string" where
  "toUpperCase str = map upper_char str"

definition normalizeString :: "string \<Rightarrow> string" where
  "normalizeString str = toUpperCase (strip_non_alnum str)"

subsection \<open>Button formatting (messenger.js, lines 225-238)\<close>

text \<open>
  \<^verbatim>\<open>buttons && buttons.map(...)\<close>: the argument is either absent (\<open>None\<close>, returned as
  it is) or an array, mapped element by element.
\<close>

definition format_button :: "js \<Rightarrow> js" where
  "format_button button =
     (case button of
        Str s \<Rightarrow> Obj [(''type'', Str ''postback''),
                       (''title'', Str s),
                       (''payload'', Str (''BOOTBOT_BUTTON_'' @ normalizeString s))]
      | _ \<Rightarrow> if truthy button \<and> truthy (get_prop button ''title'') then button else Obj [])"

definition formatButtons :: "js list option \<Rightarrow> js list option" where
  "formatButtons buttons = map_option (map format_button) buttons"

subsection \<open>The Messenger object and its environment\<close>

text \<open>
  The fields the constructor stores (messenger.js, lines 22-25). The listener table of
  the inherited emitter is part of the \<open>world\<close> below, since the code changes it.
\<close>

record messenger =
  accessToken :: string
  verifyToken :: string
  appSecret :: string
  broadcastEchoes :: bool

text \<open>
  The message handed to \<open>sendMessage\<close>, as \<open>sendTextMessage\<close>, \<open>sendTemplate\<close> and
  \<open>sendAttachment\<close> build it: an optional text, optional quick replies, an optional
  attachment. The three shapes of request body the class builds are the constructors of
  \<open>body\<close>; \<^verbatim>\<open>JSON.stringify(body)\<close> is the runtime's, the model keeps the value.
\<close>

record message =
  msg_text :: "string option"
  quick_replies :: "js list option"
  attachment :: "js option"

datatype body =
    MessageBody string message
  | SenderAction string string
  | ThreadSettings js

record request =
  url :: string
  http_method :: string
  headers :: "(string \<times> string) list"
  req_body :: "body option"

text \<open>
  A response of the remote API is what its \<^verbatim>\<open>res.json()\<close> settles to: the parsed JSON,
  or the error of a body that does not parse. The network answers each request either
  with a transport error or with a response; it is indexed by the number of requests
  issued before, so that equal requests can be answered differently.
\<close>

datatype response = Response "string + js"

type_synonym network = "nat \<Rightarrow> request \<Rightarrow> string + response"

text \<open>
  Everything the code does to its surroundings, in order: requests sent with
  \<^verbatim>\<open>fetch\<close>, timers started with \<^verbatim>\<open>setTimeout\<close>, rows given to
  \<^verbatim>\<open>bp.db.saveUser\<close>.
\<close>

datatype effect =
    Fetch request
  | SetTimeout int
  | SaveUser js

text \<open>
  A listener of the emitter: an identity, whether it was registered with \<^verbatim>\<open>once\<close>,
  and whether a call of it with a given event returns (\<open>True\<close>) or throws (\<open>False\<close>).
\<close>

record 'e listener =
  lid :: nat
  is_once :: bool
  returns :: "'e \<Rightarrow> bool"

text \<open>
  The state outside the function being run: the trace of effects, the lines written to
  the console, the files on disk (by name), the listener table in registration order,
  the trace of \<open>_handleEvent\<close> calls (event name, event, the \<^verbatim>\<open>captured\<close> flag when a
  data object is passed) and the trace of listener calls (event name, listener).
\<close>

record 'e world =
  effects :: "effect list"
  console :: "string list"
  files :: "string \<Rightarrow> file_text option"
  listeners :: "(string \<times> 'e listener) list"
  emitted :: "(string \<times> 'e \<times> bool option) list"
  invoked :: "(string \<times> nat) list"

subsection \<open>Promises\<close>

text \<open>
  A promise is modelled by how it settles, with the world at that moment. \<open>Pending\<close>
  is a promise that never settles. The network settles every request, so a promise is
  pending only where the code never calls \<^verbatim>\<open>resolve\<close> or \<^verbatim>\<open>reject\<close>.
\<close>

datatype 'a promise = Resolved 'a | Rejected string | Pending

type_synonym ('a, 'e) async = "'e world \<Rightarrow> 'a promise \<times> 'e world"

definition then_p :: "('a, 'e) async \<Rightarrow> ('a \<Rightarrow> ('b, 'e) async) \<Rightarrow> ('b, 'e) async" where
  "then_p p f w =
     (case p w of
        (Resolved v, w') \<Rightarrow> f v w'
      | (Rejected err, w') \<Rightarrow> (Rejected err, w')
      | (Pending, w') \<Rightarrow> (Pending, w'))"

definition catch_p :: "('a, 'e) async \<Rightarrow> (string \<Rightarrow> ('a, 'e) async) \<Rightarrow> ('a, 'e) async" where
  "catch_p p h w =
     (case p w of
        (Resolved v, w') \<Rightarrow> (Resolved v, w')
      | (Rejected err, w') \<Rightarrow> h err w'
      | (Pending, w') \<Rightarrow> (Pending, w'))"

text \<open>
  \<^verbatim>\<open>new Promise((resolve, reject) => ...)\<close> whose body calls \<^verbatim>\<open>resolve\<close> when the
  inner chain resolves and never calls \<^verbatim>\<open>reject\<close>.
\<close>

definition new_promise :: "('a, 'e) async \<Rightarrow> ('a, 'e) async" where
  "new_promise p w =
     (case p w of
        (Resolved v, w') \<Rightarrow> (Resolved v, w')
      | (Rejected err, w') \<Rightarrow> (Pending, w')
      | (Pending, w') \<Rightarrow> (Pending, w'))"

definition fetches :: "effect list \<Rightarrow> effect list" where
  "fetches es = filter (\<lambda>e. case e of Fetch r \<Rightarrow> True | _ \<Rightarrow> False) es"

definition fetch :: "network \<Rightarrow> request \<Rightarrow> (response, 'e) async" where
  "fetch net req w =
     ((case net (length (fetches (effects w))) req of
         Inl err \<Rightarrow> Rejected err
       | Inr res \<Rightarrow> Resolved res),
      w\<lparr>effects := effects w @ [Fetch req]\<rparr>)"

definition res_json :: "response \<Rightarrow> (js, 'e) async" where
  "res_json res w =
     (case res of Response (Inl err) \<Rightarrow> (Rejected err, w) | Response (Inr j) \<Rightarrow> (Resolved j, w))"

definition console_log :: "string \<Rightarrow> (js, 'e) async" where
  "console_log line w = (Resolved Undefined, w\<lparr>console := console w @ [line]\<rparr>)"

definition setTimeout :: "int \<Rightarrow> (js, 'e) async" where
  "setTimeout ms w = (Resolved Undefined, w\<lparr>effects := effects w @ [SetTimeout ms]\<rparr>)"

definition once :: "string \<Rightarrow> 'e listener \<Rightarrow> 'e world \<Rightarrow> 'e world" where
  "once name l w = w\<lparr>listeners := listeners w @ [(name, l\<lparr>is_once := True\<rparr>)]\<rparr>"

subsection \<open>Outbound requests (messenger.js, lines 84-160)\<close>

text \<open>\<^verbatim>\<open>endpoint || 'messages'\<close>, \<^verbatim>\<open>method || 'POST'\<close>: absent or empty gives the default.\<close>

definition or_default :: "string option \<Rightarrow> string \<Rightarrow> string" where
  "or_default v d = (case v of None \<Rightarrow> d | Some s \<Rightarrow> if s = [] then d else s)"

definition message_request :: "messenger \<Rightarrow> body \<Rightarrow> string option \<Rightarrow> string option \<Rightarrow> request" where
  "message_request this b endpoint method =
     \<lparr>url = ''https://graph.facebook.com/v2.7/me/'' @ or_default endpoint ''messages''
              @ ''?access_token='' @ accessToken this,
      http_method = or_default method ''POST'',
      headers = [(''Content-Type'', ''application/json'')],
      req_body = Some b\<rparr>"

definition sendRequest ::
  "messenger \<Rightarrow> network \<Rightarrow> body \<Rightarrow> string option \<Rightarrow> string option \<Rightarrow> (js, 'e) async" where
  "sendRequest this net b endpoint method =
     catch_p
       (then_p (fetch net (message_request this b endpoint method)) (\<lambda>res. res_json res))
       (\<lambda>err. console_log (''Error sending message: '' @ err))"

definition sendThreadRequest ::
  "messenger \<Rightarrow> network \<Rightarrow> body \<Rightarrow> string option \<Rightarrow> (js, 'e) async" where
  "sendThreadRequest this net b method = sendRequest this net b (Some ''thread_settings'') method"

definition sendAction :: "messenger \<Rightarrow> network \<Rightarrow> string \<Rightarrow> string \<Rightarrow> (js, 'e) async" where
  "sendAction this net recipientId action =
     sendRequest this net (SenderAction recipientId action) None None"

text \<open>
  \<open>sendTypingIndicator\<close> (lines 142-153) is called with a number, for which
  \<^verbatim>\<open>isNaN(milliseconds)\<close> is false. \<open>timeout\<close> is bound before the test against
  20000; the assignment in the test changes \<open>milliseconds\<close>, which is not read again.
  The timer is started with \<open>timeout\<close>.
\<close>

definition sendTypingIndicator ::
  "messenger \<Rightarrow> network \<Rightarrow> string \<Rightarrow> int \<Rightarrow> (js, 'e) async" where
  "sendTypingIndicator this net recipientId milliseconds w =
     (let timeout = milliseconds;
          (milliseconds', w1) =
             (if milliseconds > 20000
              then (20000, w\<lparr>console := console w @
                      [''sendTypingIndicator: max milliseconds value is 20000 (20 seconds)'']\<rparr>)
              else (milliseconds, w))
      in new_promise
           (then_p (sendAction this net recipientId ''typing_on'')
              (\<lambda>_. then_p (setTimeout timeout)
                 (\<lambda>_. sendAction this net recipientId ''typing_off''))) w1)"

text \<open>
  The options of a send: \<^verbatim>\<open>typing\<close> is any value; \<^verbatim>\<open>onDelivery\<close> and \<^verbatim>\<open>onRead\<close>
  are listeners when they are functions and absent otherwise.
\<close>

record 'e options =
  typing :: js
  onDelivery :: "'e listener option"
  onRead :: "'e listener option"

definition register_receipts :: "'e options option \<Rightarrow> 'e world \<Rightarrow> 'e world" where
  "register_receipts opts w =
     (let w1 = (case Option.bind opts onDelivery of Some l \<Rightarrow> once ''delivery'' l w | None \<Rightarrow> w)
      in (case Option.bind opts onRead of Some l \<Rightarrow> once ''read'' l w1 | None \<Rightarrow> w1))"

definition req ::
  "messenger \<Rightarrow> network \<Rightarrow> string \<Rightarrow> message \<Rightarrow> 'e options option \<Rightarrow> (js, 'e) async" where
  "req this net recipientId msg opts =
     then_p (sendRequest this net (MessageBody recipientId msg) None None)
       (\<lambda>json w. (Resolved json, register_receipts opts w))"

definition autoTimeout :: "message \<Rightarrow> int" where
  "autoTimeout msg =
     (case msg_text msg of
        Some t \<Rightarrow> if t \<noteq> [] then int (length t) * 10 else 1000
      | None \<Rightarrow> 1000)"

definition sendMessage ::
  "messenger \<Rightarrow> network \<Rightarrow> string \<Rightarrow> message \<Rightarrow> 'e options option \<Rightarrow> (js, 'e) async" where
  "sendMessage this net recipientId msg opts =
     (case opts of
        Some opt \<Rightarrow>
          if truthy (typing opt) then
            (let timeout = (case typing opt of Num n \<Rightarrow> n | _ \<Rightarrow> autoTimeout msg)
             in then_p (sendTypingIndicator this net recipientId timeout)
                  (\<lambda>_. req this net recipientId msg opts))
          else req this net recipientId msg opts
      | None \<Rightarrow> req this net recipientId msg opts)"

definition profile_request :: "messenger \<Rightarrow> string \<Rightarrow> request" where
  "profile_request this userId =
     \<lparr>url = ''https://graph.facebook.com/v2.7/'' @ userId
              @ ''?fields=first_name,last_name,profile_pic,locale,timezone,gender&access_token=''
              @ accessToken this,
      http_method = ''GET'',
      headers = [],
      req_body = None\<rparr>"

definition getUserProfile :: "messenger \<Rightarrow> network \<Rightarrow> string \<Rightarrow> (js, 'e) async" where
  "getUserProfile this net userId =
     catch_p
       (then_p (fetch net (profile_request this userId)) (\<lambda>res. res_json res))
       (\<lambda>err. console_log (''Error getting user profile: '' @ err))"

subsection \<open>Inbound events (messenger.js, lines 259-352)\<close>

text \<open>
  A messaging event of a webhook batch, with the fields the handler reads. A text, a
  payload or an attachment list is absent (\<open>None\<close>) or present; \<^verbatim>\<open>optin\<close>,
  \<^verbatim>\<open>delivery\<close>, \<^verbatim>\<open>read\<close> and \<^verbatim>\<open>account_linking\<close> are any value, \<open>Undefined\<close>
  when absent. \<open>sender_id\<close> is \<open>None\<close> for an event without a \<^verbatim>\<open>sender\<close>, where
  reading \<^verbatim>\<open>event.sender.id\<close> throws a \<^verbatim>\<open>TypeError\<close>. An entry without a
  \<^verbatim>\<open>messaging\<close> array has \<open>messaging = None\<close>, a body without an \<^verbatim>\<open>entry\<close>
  array \<open>entry = None\<close>; calling \<^verbatim>\<open>forEach\<close> on either throws a \<^verbatim>\<open>TypeError\<close>.
\<close>

record fb_quick_reply =
  qr_payload :: "string option"

record fb_message =
  ev_text :: "string option"
  is_echo :: bool
  quick_reply :: "fb_quick_reply option"
  attachments :: "js list option"

record fb_postback =
  pb_payload :: "string option"

record fb_event =
  sender_id :: "string option"
  recipient_id :: string
  ev_message :: "fb_message option"
  optin :: js
  postback :: "fb_postback option"
  delivery :: js
  read_receipt :: js
  account_linking :: js

record fb_entry =
  messaging :: "fb_event list option"

record webhook_data =
  object :: string
  entry :: "fb_entry list option"

text \<open>A string is truthy when it is present and not empty.\<close>

definition truthy_str :: "string option \<Rightarrow> bool" where
  "truthy_str s = (case s of None \<Rightarrow> False | Some t \<Rightarrow> t \<noteq> [])"

text \<open>
  A synchronous call returns or throws; an exception leaves the calls after it undone
  and reaches the caller.
\<close>

datatype completion = Returned | Thrown

type_synonym 'e step = "'e world \<Rightarrow> completion \<times> 'e world"

text \<open>
  \<^verbatim>\<open>emit\<close> is inherited from the \<^verbatim>\<open>eventemitter2\<close> package (messenger.js, lines 3
  and 11): it calls the listeners registered under the event name one after the other,
  in registration order, inside no \<^verbatim>\<open>try\<close>; a listener registered with \<^verbatim>\<open>once\<close>
  is removed from the table as it is called.
\<close>

fun remove_listener :: "string \<Rightarrow> nat \<Rightarrow> (string \<times> 'e listener) list \<Rightarrow> (string \<times> 'e listener) list" where
  "remove_listener name i [] = []"
| "remove_listener name i ((n, l) # rest) =
     (if n = name \<and> lid l = i then rest else (n, l) # remove_listener name i rest)"

fun call_listeners :: "string \<Rightarrow> 'e listener list \<Rightarrow> 'e \<Rightarrow> 'e step" where
  "call_listeners name [] ev w = (Returned, w)"
| "call_listeners name (l # ls) ev w =
     (let w1 = w\<lparr>listeners := (if is_once l then remove_listener name (lid l) (listeners w)
                                 else listeners w),
                  invoked := invoked w @ [(name, lid l)]\<rparr>
      in if returns l ev then call_listeners name ls ev w1 else (Thrown, w1))"

definition listeners_for :: "string \<Rightarrow> 'e world \<Rightarrow> 'e listener list" where
  "listeners_for name w = map snd (filter (\<lambda>(n, l). n = name) (listeners w))"

definition emit :: "string \<Rightarrow> 'e \<Rightarrow> 'e step" where
  "emit name ev w = call_listeners name (listeners_for name w) ev w"

definition handleEvent :: "string \<Rightarrow> 'e \<Rightarrow> bool option \<Rightarrow> 'e step" where
  "handleEvent type ev data w = emit type ev (w\<lparr>emitted := emitted w @ [(type, ev, data)]\<rparr>)"

text \<open>
  \<open>_handleConversationResponse\<close> (lines 296-300) reads \<^verbatim>\<open>event.sender.id\<close> and returns
  \<^verbatim>\<open>captured\<close>, false. On an event without a sender the read throws: \<open>None\<close>.
\<close>

definition handleConversationResponse :: "string \<Rightarrow> fb_event \<Rightarrow> bool option" where
  "handleConversationResponse type ev =
     (case sender_id ev of
        None \<Rightarrow> None
      | Some userId \<Rightarrow> (let captured = False in Some captured))"

text \<open>
  The four handlers call \<open>_handleConversationResponse\<close> first and return when it
  captured the event; its exception is theirs. They read \<^verbatim>\<open>event.message\<close> or
  \<^verbatim>\<open>event.postback\<close> without a test; on an event without it the read throws.
\<close>

definition handleMessageEvent :: "fb_event \<Rightarrow> fb_event step" where
  "handleMessageEvent ev w =
     (case handleConversationResponse ''message'' ev of
        None \<Rightarrow> (Thrown, w)
      | Some True \<Rightarrow> (Returned, w)
      | Some False \<Rightarrow>
          (case ev_message ev of
             None \<Rightarrow> (Thrown, w)
           | Some m \<Rightarrow>
               (let captured = False
                in if \<not> truthy_str (ev_text m) then (Returned, w)
                   else handleEvent ''message'' ev (Some captured) w)))"

definition handleAttachmentEvent :: "fb_event \<Rightarrow> fb_event step" where
  "handleAttachmentEvent ev w =
     (case handleConversationResponse ''attachment'' ev of
        None \<Rightarrow> (Thrown, w)
      | Some True \<Rightarrow> (Returned, w)
      | Some False \<Rightarrow> handleEvent ''attachment'' ev None w)"

definition skip :: "'e step" where
  "skip w = (Returned, w)"

definition and_then :: "'e step \<Rightarrow> 'e step \<Rightarrow> 'e step" where
  "and_then f g w = (case f w of (Returned, w') \<Rightarrow> g w' | (Thrown, w') \<Rightarrow> (Thrown, w'))"

definition handlePostbackEvent :: "fb_event \<Rightarrow> fb_event step" where
  "handlePostbackEvent ev w =
     (case handleConversationResponse ''postback'' ev of
        None \<Rightarrow> (Thrown, w)
      | Some True \<Rightarrow> (Returned, w)
      | Some False \<Rightarrow>
          (case postback ev of
             None \<Rightarrow> (Thrown, w)
           | Some pb \<Rightarrow>
               (let payload = pb_payload pb
                in and_then
                     (case payload of
                        Some p \<Rightarrow> if p \<noteq> [] then handleEvent (''postback:'' @ p) ev None else skip
                      | None \<Rightarrow> skip)
                     (handleEvent ''postback'' ev None) w)))"

definition handleQuickReplyEvent :: "fb_event \<Rightarrow> fb_event step" where
  "handleQuickReplyEvent ev w =
     (case handleConversationResponse ''quick_reply'' ev of
        None \<Rightarrow> (Thrown, w)
      | Some True \<Rightarrow> (Returned, w)
      | Some False \<Rightarrow>
          (case ev_message ev of
             None \<Rightarrow> (Thrown, w)
           | Some m \<Rightarrow>
               (let payload = (case quick_reply m of None \<Rightarrow> None | Some q \<Rightarrow> qr_payload q)
                in and_then
                     (case payload of
                        Some p \<Rightarrow> if p \<noteq> [] then handleEvent (''quick_reply:'' @ p) ev None else skip
                      | None \<Rightarrow> skip)
                     (handleEvent ''quick_reply'' ev None) w)))"

text \<open>\<^verbatim>\<open>forEach\<close>: the elements in order, stopping at an exception.\<close>

fun forEach :: "('a \<Rightarrow> 'e step) \<Rightarrow> 'a list \<Rightarrow> 'e step" where
  "forEach f [] w = (Returned, w)"
| "forEach f (x # xs) w =
     (case f x w of (Returned, w') \<Rightarrow> forEach f xs w' | (Thrown, w') \<Rightarrow> (Thrown, w'))"

text \<open>The body of the inner \<^verbatim>\<open>forEach\<close> of the POST handler (lines 322-346).\<close>

definition has_text :: "fb_event \<Rightarrow> bool" where
  "has_text ev = (case ev_message ev of None \<Rightarrow> False | Some m \<Rightarrow> truthy_str (ev_text m))"

definition has_attachments :: "fb_event \<Rightarrow> bool" where
  "has_attachments ev = (case ev_message ev of None \<Rightarrow> False | Some m \<Rightarrow> attachments m \<noteq> None)"

definition has_quick_reply :: "fb_event \<Rightarrow> bool" where
  "has_quick_reply ev = (case ev_message ev of None \<Rightarrow> False | Some m \<Rightarrow> quick_reply m \<noteq> None)"

definition echoed :: "fb_event \<Rightarrow> bool" where
  "echoed ev = (case ev_message ev of None \<Rightarrow> False | Some m \<Rightarrow> is_echo m)"

definition on_messaging :: "messenger \<Rightarrow> fb_event \<Rightarrow> fb_event step" where
  "on_messaging this ev w =
     (if echoed ev \<and> \<not> broadcastEchoes this then (Returned, w)
      else if truthy (optin ev) then handleEvent ''authentication'' ev None w
      else if has_text ev then
        and_then (handleMessageEvent ev)
          (if has_quick_reply ev then handleQuickReplyEvent ev else skip) w
      else if has_attachments ev then handleAttachmentEvent ev w
      else if postback ev \<noteq> None then handlePostbackEvent ev w
      else if truthy (delivery ev) then handleEvent ''delivery'' ev None w
      else if truthy (read_receipt ev) then handleEvent ''read'' ev None w
      else if truthy (account_linking ev) then handleEvent ''account_linking'' ev None w
      else (Returned, w\<lparr>console := console w @ [''Webhook received unknown event: '']\<rparr>))"

text \<open>
  \<^verbatim>\<open>xs.forEach(f)\<close> on a value that may be absent: a \<^verbatim>\<open>TypeError\<close> when it is.
\<close>

definition forEach_of :: "('a \<Rightarrow> 'e step) \<Rightarrow> 'a list option \<Rightarrow> 'e step" where
  "forEach_of f xs w = (case xs of None \<Rightarrow> (Thrown, w) | Some ys \<Rightarrow> forEach f ys w)"

text \<open>
  The POST handler (lines 313-351); \<open>data\<close> is the parsed body of the request. Its
  result is how it completes and the status it sent with \<^verbatim>\<open>res.sendStatus\<close>, \<open>None\<close>
  when it sent none.
\<close>

definition post_webhook ::
  "messenger \<Rightarrow> webhook_data \<Rightarrow> fb_event world \<Rightarrow> (completion \<times> nat option) \<times> fb_event world" where
  "post_webhook this data w =
     (if object data \<noteq> ''page'' then ((Returned, None), w)
      else case forEach_of (\<lambda>e. forEach_of (on_messaging this) (messaging e)) (entry data) w of
             (Returned, w') \<Rightarrow> ((Returned, Some 200), w')
           | (Thrown, w') \<Rightarrow> ((Thrown, None), w'))"

subsection \<open>The profile cache (users.js)\<close>

text \<open>
  What the module takes from its surroundings: the name of the cache file
  (\<^verbatim>\<open>path.join(bp.dataLocation, 'botpress-messenger.profiles.json')\<close>) and how the
  promise of \<^verbatim>\<open>bp.db.saveUser\<close> settles for a row: it resolves (\<open>None\<close>) or rejects
  with an error. Reading and writing the file succeed. The debug line of
  \<^verbatim>\<open>bp.logger\<close> is kept with the console lines.
\<close>

record users_env =
  filename :: string
  saveUser :: "js \<Rightarrow> string option"

text \<open>The module's variables: the properties of \<^verbatim>\<open>userProfiles\<close> and \<^verbatim>\<open>cacheTs\<close>.\<close>

record users_state =
  userProfiles :: "(string \<times> js) list"
  cacheTs :: int

text \<open>\<open>loadUserProfiles\<close> (lines 26-31): the parsed file, or \<^verbatim>\<open>{}\<close> when there is none.\<close>

definition loadUserProfiles :: "users_env \<Rightarrow> 'e world \<Rightarrow> string + js" where
  "loadUserProfiles env w =
     (case files w (filename env) of
        Some content \<Rightarrow> JSON_parse content
      | None \<Rightarrow> Inr (Obj []))"

text \<open>
  \<open>saveUserProfiles\<close> (lines 33-37). \<^verbatim>\<open>JSON.stringify\<close> of an object is a text; the
  other case is written as the text \<^verbatim>\<open>undefined\<close>.
\<close>

definition saveUserProfiles :: "users_env \<Rightarrow> (string \<times> js) list \<Rightarrow> 'e world \<Rightarrow> 'e world" where
  "saveUserProfiles env profiles w =
     (let content = (case JSON_stringify (Obj profiles) of
                       Some t \<Rightarrow> t
                     | None \<Rightarrow> PlainText ''undefined'')
      in w\<lparr>console := console w @ [''messenger: saved user profiles to disk''],
            files := (files w)(filename env \<mapsto> content)\<rparr>)"

text \<open>
  Loading the module (lines 39-40): the profiles come from the file, the timestamp from
  the clock; a file that does not parse aborts the load. A file that holds a JSON text
  other than an object leaves \<^verbatim>\<open>userProfiles\<close> no object; what the module does from
  there is outside this model.
\<close>

datatype loaded = Failed string | Loaded users_state | NotAnObject js

definition users_init :: "users_env \<Rightarrow> int \<Rightarrow> 'e world \<Rightarrow> loaded" where
  "users_init env now w =
     (case loadUserProfiles env w of
        Inl err \<Rightarrow> Failed err
      | Inr (Obj profiles) \<Rightarrow> Loaded \<lparr>userProfiles = profiles, cacheTs = now\<rparr>
      | Inr v \<Rightarrow> NotAnObject v)"

text \<open>
  \<^verbatim>\<open>profile.id = userId\<close> in strict mode: a \<^verbatim>\<open>TypeError\<close> on \<^verbatim>\<open>undefined\<close>,
  \<^verbatim>\<open>null\<close> and the primitive values; objects and arrays take the property. (A function
  object would take it too; none comes out of \<^verbatim>\<open>res.json()\<close>.)
\<close>

fun stamp_id :: "js \<Rightarrow> string \<Rightarrow> string + js" where
  "stamp_id (Obj ps) userId = Inr (Obj (set_prop ''id'' (Str userId) ps))"
| "stamp_id (Arr xs ps) userId = Inr (Arr xs (set_prop ''id'' (Str userId) ps))"
| "stamp_id (Fn f) userId = Inr (Fn f)"
| "stamp_id v userId = Inl ''TypeError: Cannot set property id''"

definition user_row :: "js \<Rightarrow> js" where
  "user_row profile =
     Obj [(''id'', get_prop profile ''id''),
          (''platform'', Str ''facebook''),
          (''gender'', get_prop profile ''gender''),
          (''timezone'', get_prop profile ''timezone''),
          (''locale'', get_prop profile ''locale''),
          (''picture_url'', get_prop profile ''profile_pic''),
          (''first_name'', get_prop profile ''first_name''),
          (''last_name'', get_prop profile ''last_name'')]"

text \<open>
  \<open>getOrFetchUserProfile\<close> (lines 43-69), wrapped by \<^verbatim>\<open>Promise.method\<close>. \<open>now\<close> and
  \<open>now'\<close> are the two readings \<^verbatim>\<open>new Date()\<close> of the clock in the callback, in
  milliseconds: the one compared with \<open>cacheTs\<close> and the one stored after the write.
\<close>

definition getOrFetchUserProfile ::
  "users_env \<Rightarrow> messenger \<Rightarrow> network \<Rightarrow> int \<Rightarrow> int \<Rightarrow> string
     \<Rightarrow> users_state \<times> 'e world \<Rightarrow> js promise \<times> users_state \<times> 'e world" where
  "getOrFetchUserProfile env this net now now' userId sw =
     (let (st, w) = sw in
      if truthy (get_prop (Obj (userProfiles st)) userId)
      then (Resolved (get_prop (Obj (userProfiles st)) userId), st, w)
      else
        (case getUserProfile this net userId w of
           (Resolved fetched, w1) \<Rightarrow>
             (case stamp_id fetched userId of
                Inl err \<Rightarrow> (Rejected err, st, w1)
              | Inr profile \<Rightarrow>
                  (let st1 = st\<lparr>userProfiles := set_prop userId profile (userProfiles st)\<rparr>;
                       (st2, w2) =
                         (if now - cacheTs st1 \<ge> 10000
                          then (st1\<lparr>cacheTs := now'\<rparr>, saveUserProfiles env (userProfiles st1) w1)
                          else (st1, w1));
                       w3 = w2\<lparr>effects := effects w2 @ [SaveUser (user_row profile)]\<rparr>
                   in case saveUser env (user_row profile) of
                        None \<Rightarrow> (Resolved profile, st2, w3)
                      | Some err \<Rightarrow> (Rejected err, st2, w3)))
         | (Rejected err, w1) \<Rightarrow> (Rejected err, st, w1)
         | (Pending, w1) \<Rightarrow> (Pending, st, w1)))"

subsection \<open>The classification rules, as the specification words them\<close>

text \<open>
  The rules of the dispatcher in their precedence: the first rule whose condition holds
  applies; \<open>None\<close> when none does. A field is present when the handler's test of it
  succeeds.
\<close>

datatype rule =
    EchoDiscard | OptinRule | TextRule | AttachmentsRule
  | PostbackRule | DeliveryRule | ReadRule | AccountLinkingRule






definition base_events :: "string list" where
  "base_events = [''authentication'', ''message'', ''attachment'', ''postback'',
                  ''delivery'', ''read'', ''account_linking'']"

definition base_dispatches :: "(string \<times> fb_event \<times> bool option) list \<Rightarrow> nat" where
  "base_dispatches tr = length (filter (\<lambda>(n, ev, d). n \<in> set base_events) tr)"









text \<open>The listeners an emission reaches: those up to the first that throws, it included.\<close>

fun reached :: "'e \<Rightarrow> 'e listener list \<Rightarrow> 'e listener list" where
  "reached ev [] = []"
| "reached ev (l # ls) = l # (if returns l ev then reached ev ls else [])"

subsection \<open>Sample inputs\<close>

definition bot0 :: messenger where
  "bot0 = \<lparr>accessToken = ''TOKEN'', verifyToken = ''VERIFY'', appSecret = ''SECRET'',
            broadcastEchoes = False\<rparr>"

definition world0 :: "fb_event world" where
  "world0 = \<lparr>effects = [], console = [], files = (\<lambda>f. None), listeners = [],
              emitted = [], invoked = []\<rparr>"

definition net_down :: network where
  "net_down k rq = Inl ''ECONNRESET''"

definition net_ok :: network where
  "net_ok k rq = Inr (Response (Inr (Obj [(''recipient_id'', Str ''1234'')])))"

definition hello :: message where
  "hello = \<lparr>msg_text = Some ''hello'', quick_replies = None, attachment = None\<rparr>"

definition typing_for :: "int \<Rightarrow> fb_event options" where
  "typing_for n = \<lparr>typing = Num n, onDelivery = None, onRead = None\<rparr>"

definition text_event :: fb_event where
  "text_event =
     \<lparr>sender_id = Some ''1234'', recipient_id = ''5678'',
      ev_message = Some \<lparr>ev_text = Some ''hi'', is_echo = False, quick_reply = None,
                          attachments = None\<rparr>,
      optin = Undefined, postback = None, delivery = Undefined, read_receipt = Undefined,
      account_linking = Undefined\<rparr>"





definition batch :: "string \<Rightarrow> fb_event list \<Rightarrow> webhook_data" where
  "batch obj evs = \<lparr>object = obj, entry = Some [\<lparr>messaging = Some evs\<rparr>]\<rparr>"

definition quiet :: "nat \<Rightarrow> fb_event listener" where
  "quiet i = \<lparr>lid = i, is_once = False, returns = (\<lambda>ev. True)\<rparr>"

definition thrower :: "nat \<Rightarrow> fb_event listener" where
  "thrower i = \<lparr>lid = i, is_once = False, returns = (\<lambda>ev. False)\<rparr>"

text \<open>
  A cache file name, an empty cache started at time 0, one profile as the remote API
  returns it, the cache that holds it, and a network that answers with an empty array.
\<close>

definition state0 :: users_state where
  "state0 = \<lparr>userProfiles = [], cacheTs = 0\<rparr>"

definition remote_profile :: js where
  "remote_profile = Obj [(''first_name'', Str ''Ada''), (''timezone'', Num 1)]"

definition cached_profiles :: "(string \<times> js) list" where
  "cached_profiles =
     [(''1234'', Obj [(''first_name'', Str ''Ada''), (''timezone'', Num 1), (''id'', Str ''1234'')])]"

definition env0 :: users_env where
  "env0 =
     \<lparr>filename = ''data/botpress-messenger.profiles.json'',
      saveUser = (\<lambda>row. None)\<rparr>"

definition net_array :: network where
  "net_array k rq = Inr (Response (Inr (Arr [] [])))"

definition net_profile :: network where
  "net_profile k rq = Inr (Response (Inr remote_profile))"

section \<open>Properties\<close>

subsection \<open>Normalisation\<close>

lemma upper_char_alnum:
  assumes "is_alnum c"
  shows "is_alnum (upper_char c) \<and> \<not> is_lower (upper_char c)"
proof (cases "is_lower c")
  case True
  then have b: "97 \<le> (of_char c :: nat)" "(of_char c :: nat) \<le> 122"
    by (simp_all add: is_lower_def)
  then have "(of_char (char_of ((of_char c :: nat) - 32)) :: nat) = of_char c - 32"
    by simp
  moreover from b have "65 \<le> (of_char c :: nat) - 32" "(of_char c :: nat) - 32 \<le> 90"
    by arith+
  ultimately have "is_upper (upper_char c)" "\<not> is_lower (upper_char c)"
    using True by (simp_all add: upper_char_def is_upper_def is_lower_def)
  then show ?thesis
    by (simp add: is_alnum_def)
next
  case False
  with assms show ?thesis
    by (auto simp: upper_char_def is_alnum_def is_upper_def is_lower_def is_digit_def)
qed

lemma upper_char_fixed: "\<not> is_lower c \<Longrightarrow> upper_char c = c"
  by (simp add: upper_char_def)

lemma normalizeString_chars:
  "c \<in> set (normalizeString s) \<Longrightarrow> is_alnum c \<and> \<not> is_lower c"
  by (auto simp: normalizeString_def toUpperCase_def strip_non_alnum_def upper_char_alnum)

lemma normalize_fixed:
  "(\<And>c. c \<in> set s \<Longrightarrow> is_alnum c \<and> \<not> is_lower c) \<Longrightarrow> normalizeString s = s"
proof (induction s)
  case Nil
  show ?case by (simp add: normalizeString_def toUpperCase_def strip_non_alnum_def)
next
  case (Cons a s)
  then have "normalizeString s = s" by simp
  moreover from Cons.prems have "is_alnum a" "\<not> is_lower a" by simp_all
  ultimately show ?case
    by (simp add: normalizeString_def toUpperCase_def strip_non_alnum_def upper_char_fixed)
qed

text \<open>
  C10. Normalising a label twice gives the same string as normalising it once: the
  output of \<open>normalizeString\<close> holds upper-case letters and digits only, and the
  function leaves such a string as it is.
\<close>

theorem normalizeString_idempotent:
  "normalizeString (normalizeString s) = normalizeString s"
  by (rule normalize_fixed) (rule normalizeString_chars)

subsection \<open>Outbound requests\<close>

lemma sendRequest_unfold:
  "sendRequest this net b ep m w =
     (let rq = message_request this b ep m;
          w1 = w\<lparr>effects := effects w @ [Fetch rq]\<rparr>;
          failed = (\<lambda>err. (Resolved Undefined,
                      w1\<lparr>console := console w1 @ [''Error sending message: '' @ err]\<rparr>))
      in case net (length (fetches (effects w))) rq of
           Inl err \<Rightarrow> failed err
         | Inr (Response (Inl err)) \<Rightarrow> failed err
         | Inr (Response (Inr j)) \<Rightarrow> (Resolved j, w1))"
  by (simp add: sendRequest_def catch_p_def then_p_def fetch_def res_json_def console_log_def
           Let_def split: sum.splits response.splits)

lemma getUserProfile_unfold:
  "getUserProfile this net userId w =
     (let rq = profile_request this userId;
          w1 = w\<lparr>effects := effects w @ [Fetch rq]\<rparr>;
          failed = (\<lambda>err. (Resolved Undefined,
                      w1\<lparr>console := console w1 @ [''Error getting user profile: '' @ err]\<rparr>))
      in case net (length (fetches (effects w))) rq of
           Inl err \<Rightarrow> failed err
         | Inr (Response (Inl err)) \<Rightarrow> failed err
         | Inr (Response (Inr j)) \<Rightarrow> (Resolved j, w1))"
  by (simp add: getUserProfile_def catch_p_def then_p_def fetch_def res_json_def console_log_def
           Let_def split: sum.splits response.splits)

lemma sendRequest_resolved: "\<exists>v. fst (sendRequest this net b ep m w) = Resolved v"
  by (simp add: sendRequest_unfold Let_def split: sum.splits response.splits)

lemma sendRequest_effects:
  "effects (snd (sendRequest this net b ep m w)) = effects w @ [Fetch (message_request this b ep m)]"
  by (simp add: sendRequest_unfold Let_def split: sum.splits response.splits)

lemma sendRequest_pair:
  "\<exists>v w'. sendRequest this net b ep m w = (Resolved v, w')
      \<and> effects w' = effects w @ [Fetch (message_request this b ep m)]
      \<and> listeners w' = listeners w \<and> files w' = files w \<and> emitted w' = emitted w \<and> invoked w' = invoked w"
  by (simp add: sendRequest_unfold Let_def split: sum.splits response.splits)

text \<open>
  C4. The promise returned by \<open>sendRequest\<close>, and the one returned by
  \<open>getUserProfile\<close>, always resolves: with the JSON of the response when the request
  and the parsing of its body succeed, whatever that JSON is, and with \<^verbatim>\<open>undefined\<close>,
  the error logged, when the transport or the parsing fails. It never rejects.
\<close>

theorem sendRequest_never_rejects:
  "(\<exists>v. fst (sendRequest this net b ep m w) = Resolved v)
   \<and> (\<exists>v. fst (getUserProfile this net userId w) = Resolved v)
   \<and> (\<forall>j. net (length (fetches (effects w))) (message_request this b ep m) = Inr (Response (Inr j))
          \<longrightarrow> fst (sendRequest this net b ep m w) = Resolved j)
   \<and> (\<forall>j. net (length (fetches (effects w))) (profile_request this userId) = Inr (Response (Inr j))
          \<longrightarrow> fst (getUserProfile this net userId w) = Resolved j)
   \<and> (\<forall>err. net (length (fetches (effects w))) (message_request this b ep m) = Inl err
            \<or> net (length (fetches (effects w))) (message_request this b ep m) = Inr (Response (Inl err))
          \<longrightarrow> fst (sendRequest this net b ep m w) = Resolved Undefined
              \<and> console (snd (sendRequest this net b ep m w))
                  = console w @ [''Error sending message: '' @ err])
   \<and> (\<forall>err. net (length (fetches (effects w))) (profile_request this userId) = Inl err
            \<or> net (length (fetches (effects w))) (profile_request this userId) = Inr (Response (Inl err))
          \<longrightarrow> fst (getUserProfile this net userId w) = Resolved Undefined
              \<and> console (snd (getUserProfile this net userId w))
                  = console w @ [''Error getting user profile: '' @ err])"
  by (auto simp add: sendRequest_unfold getUserProfile_unfold Let_def split: sum.splits response.splits)

lemma sendTypingIndicator_run:
  "\<exists>v w'. sendTypingIndicator this net rid ms w = (Resolved v, w')
      \<and> effects w' = effects w @ [Fetch (message_request this (SenderAction rid ''typing_on'') None None),
                                   SetTimeout ms,
                                   Fetch (message_request this (SenderAction rid ''typing_off'') None None)]
      \<and> listeners w' = listeners w"
proof -
  define w0 where "w0 = (if ms > 20000
              then w\<lparr>console := console w @
                      [''sendTypingIndicator: max milliseconds value is 20000 (20 seconds)'']\<rparr>
              else w)"
  have e0: "effects w0 = effects w" "listeners w0 = listeners w" by (simp_all add: w0_def)
  obtain v1 w1 where s1: "sendRequest this net (SenderAction rid ''typing_on'') None None w0 = (Resolved v1, w1)"
     and e1: "effects w1 = effects w0 @ [Fetch (message_request this (SenderAction rid ''typing_on'') None None)]"
     and l1: "listeners w1 = listeners w0"
    using sendRequest_pair by blast
  define w2 where "w2 = w1\<lparr>effects := effects w1 @ [SetTimeout ms]\<rparr>"
  obtain v3 w3 where s3: "sendRequest this net (SenderAction rid ''typing_off'') None None w2 = (Resolved v3, w3)"
     and e3: "effects w3 = effects w2 @ [Fetch (message_request this (SenderAction rid ''typing_off'') None None)]"
     and l3: "listeners w3 = listeners w2"
    using sendRequest_pair by blast
  have "sendTypingIndicator this net rid ms w =
          new_promise
           (then_p (sendAction this net rid ''typing_on'')
              (\<lambda>_. then_p (setTimeout ms)
                 (\<lambda>_. sendAction this net rid ''typing_off''))) w0"
    by (simp add: sendTypingIndicator_def w0_def Let_def)
  also have "\<dots> = (Resolved v3, w3)"
    using s1 s3
    by (simp add: new_promise_def then_p_def sendAction_def setTimeout_def w2_def)
  finally have "sendTypingIndicator this net rid ms w = (Resolved v3, w3)" .
  moreover have "effects w3 = effects w @ [Fetch (message_request this (SenderAction rid ''typing_on'') None None),
                                   SetTimeout ms,
                                   Fetch (message_request this (SenderAction rid ''typing_off'') None None)]"
    by (simp add: e3 w2_def e1 e0)
  moreover have "listeners w3 = listeners w" by (simp add: l3 w2_def l1 e0)
  ultimately show ?thesis by blast
qed

lemma register_receipts_effects: "effects (register_receipts opts w) = effects w"
  by (simp add: register_receipts_def once_def Let_def split: option.splits)

lemma req_run:
  "\<exists>v w'. req this net rid msg opts w = (Resolved v, w')
      \<and> effects w' = effects w @ [Fetch (message_request this (MessageBody rid msg) None None)]"
proof -
  obtain v1 w1 where s1: "sendRequest this net (MessageBody rid msg) None None w = (Resolved v1, w1)"
     and e1: "effects w1 = effects w @ [Fetch (message_request this (MessageBody rid msg) None None)]"
    using sendRequest_pair by blast
  then show ?thesis
    by (simp add: req_def then_p_def register_receipts_effects)
qed

lemma sendMessage_typing_num:
  assumes "n \<noteq> 0"
  shows "\<exists>v w'. sendMessage this net rid msg (Some (opt\<lparr>typing := Num n\<rparr>)) w = (Resolved v, w')
      \<and> effects w' = effects w @
           [Fetch (message_request this (SenderAction rid ''typing_on'') None None),
            SetTimeout n,
            Fetch (message_request this (SenderAction rid ''typing_off'') None None),
            Fetch (message_request this (MessageBody rid msg) None None)]"
proof -
  obtain v1 w1 where s1: "sendTypingIndicator this net rid n w = (Resolved v1, w1)"
     and e1: "effects w1 = effects w @ [Fetch (message_request this (SenderAction rid ''typing_on'') None None),
                                   SetTimeout n,
                                   Fetch (message_request this (SenderAction rid ''typing_off'') None None)]"
    using sendTypingIndicator_run by blast
  obtain v2 w2 where s2: "req this net rid msg (Some (opt\<lparr>typing := Num n\<rparr>)) w1 = (Resolved v2, w2)"
     and e2: "effects w2 = effects w1 @ [Fetch (message_request this (MessageBody rid msg) None None)]"
    using req_run by blast
  have "sendMessage this net rid msg (Some (opt\<lparr>typing := Num n\<rparr>)) w = (Resolved v2, w2)"
    using assms s1 s2 by (simp add: sendMessage_def then_p_def)
  with e1 e2 show ?thesis by simp
qed

text \<open>
  C8. A send with \<^verbatim>\<open>options.typing = 500\<close> does four things in this order and then
  resolves: the request of the \<^verbatim>\<open>typing_on\<close> action, a timer of 500 milliseconds,
  the request of the \<^verbatim>\<open>typing_off\<close> action, the request of the message. This holds
  whatever the network answers.
\<close>

theorem sendMessage_typing_500:
  "\<exists>v w'. sendMessage this net rid msg (Some (opt\<lparr>typing := Num 500\<rparr>)) w = (Resolved v, w')
      \<and> effects w' = effects w @
           [Fetch (message_request this (SenderAction rid ''typing_on'') None None),
            SetTimeout 500,
            Fetch (message_request this (SenderAction rid ''typing_off'') None None),
            Fetch (message_request this (MessageBody rid msg) None None)]"
  by (rule sendMessage_typing_num) simp

text \<open>
  C2 does not hold of the code: a send with \<^verbatim>\<open>options.typing = 30000\<close> starts its
  timer with 30000 milliseconds, not with 20000.
\<close>

theorem typing_delay_exceeds_cap:
  "effects (snd (sendMessage bot0 net_ok ''1234'' hello (Some (typing_for 30000)) world0)) =
     [Fetch (message_request bot0 (SenderAction ''1234'' ''typing_on'') None None),
      SetTimeout 30000,
      Fetch (message_request bot0 (SenderAction ''1234'' ''typing_off'') None None),
      Fetch (message_request bot0 (MessageBody ''1234'' hello) None None)]"
proof -
  have "typing_for 30000 = (typing_for 30000)\<lparr>typing := Num 30000\<rparr>"
    by (simp add: typing_for_def)
  moreover have "(30000::int) \<noteq> 0" by simp
  ultimately obtain v w' where
    "sendMessage bot0 net_ok ''1234'' hello (Some (typing_for 30000)) world0 = (Resolved v, w')"
    "effects w' = effects world0 @
           [Fetch (message_request bot0 (SenderAction ''1234'' ''typing_on'') None None),
            SetTimeout 30000,
            Fetch (message_request bot0 (SenderAction ''1234'' ''typing_off'') None None),
            Fetch (message_request bot0 (MessageBody ''1234'' hello) None None)]"
    using sendMessage_typing_num [of 30000 bot0 net_ok "''1234''" hello "typing_for 30000" world0]
    by metis
  then show ?thesis by (simp add: world0_def)
qed

text \<open>
  The network down, both promises resolve with \<^verbatim>\<open>undefined\<close>; the network up,
  \<open>sendRequest\<close> resolves with the JSON returned.
\<close>

theorem sendRequest_never_rejects_witness:
  "fst (sendRequest bot0 net_down (SenderAction ''1234'' ''typing_on'') None None world0) = Resolved Undefined
   \<and> fst (getUserProfile bot0 net_down ''1234'' world0) = Resolved Undefined
   \<and> fst (sendRequest bot0 net_ok (SenderAction ''1234'' ''typing_on'') None None world0)
        = Resolved (Obj [(''recipient_id'', Str ''1234'')])"
  using sendRequest_never_rejects [of bot0 net_down "SenderAction ''1234'' ''typing_on''" None None world0 "''1234''"]
        sendRequest_never_rejects [of bot0 net_ok "SenderAction ''1234'' ''typing_on''" None None world0 "''1234''"]
  by (simp add: net_down_def net_ok_def)

subsection \<open>Buttons\<close>

text \<open>
  C9, as stated, fails: for the one-element list \<^verbatim>\<open>["Yes"]\<close> the payload built by
  \<open>formatButtons\<close> is not \<^verbatim>\<open>PREFIX_BUTTON_YES\<close>.
\<close>

theorem formatButtons_prefix_counterexample:
  "formatButtons (Some [Str ''Yes'']) \<noteq>
     Some [Obj [(''type'', Str ''postback''), (''title'', Str ''Yes''),
                (''payload'', Str ''PREFIX_BUTTON_YES'')]]"
  by code_simp

lemma of_char_in: "(of_char c :: nat) \<in> of_char ` set cs \<longleftrightarrow> c \<in> set cs"
  by (auto simp: image_iff)

lemma is_lower_chars: "is_lower c \<longleftrightarrow> c \<in> set ''abcdefghijklmnopqrstuvwxyz''"
proof -
  have "is_lower c \<longleftrightarrow> (of_char c :: nat) \<in> set [97..<123]"
    by (simp only: is_lower_def set_upt atLeastLessThan_iff) arith
  also have "set [97..<123] = (of_char ` set ''abcdefghijklmnopqrstuvwxyz'' :: nat set)"
    by code_simp
  finally show ?thesis by (simp only: of_char_in)
qed

lemma is_upper_chars: "is_upper c \<longleftrightarrow> c \<in> set ''ABCDEFGHIJKLMNOPQRSTUVWXYZ''"
proof -
  have "is_upper c \<longleftrightarrow> (of_char c :: nat) \<in> set [65..<91]"
    by (simp only: is_upper_def set_upt atLeastLessThan_iff) arith
  also have "set [65..<91] = (of_char ` set ''ABCDEFGHIJKLMNOPQRSTUVWXYZ'' :: nat set)"
    by code_simp
  finally show ?thesis by (simp only: of_char_in)
qed

lemma is_digit_chars: "is_digit c \<longleftrightarrow> c \<in> set ''0123456789''"
proof -
  have "is_digit c \<longleftrightarrow> (of_char c :: nat) \<in> set [48..<58]"
    by (simp only: is_digit_def set_upt atLeastLessThan_iff) arith
  also have "set [48..<58] = (of_char ` set ''0123456789'' :: nat set)"
    by code_simp
  finally show ?thesis by (simp only: of_char_in)
qed

lemma is_alnum_chars:
  "is_alnum c \<longleftrightarrow> c \<in> set ''abcdefghijklmnopqrstuvwxyzABCDEFGHIJKLMNOPQRSTUVWXYZ0123456789''"
proof -
  have "set ''abcdefghijklmnopqrstuvwxyzABCDEFGHIJKLMNOPQRSTUVWXYZ0123456789''
      = set ''abcdefghijklmnopqrstuvwxyz'' \<union> set ''ABCDEFGHIJKLMNOPQRSTUVWXYZ'' \<union> set ''0123456789''"
    by (simp only: set_append [symmetric] append.simps)
  then show ?thesis
    by (simp only: is_alnum_def is_lower_chars is_upper_chars is_digit_chars Un_iff disj_assoc)
qed

lemma normalizeString_rule:
  "normalizeString s = map upper_char
      (filter (\<lambda>c. c \<in> set ''abcdefghijklmnopqrstuvwxyzABCDEFGHIJKLMNOPQRSTUVWXYZ0123456789'') s)"
proof -
  have "is_alnum = (\<lambda>c. c \<in> set ''abcdefghijklmnopqrstuvwxyzABCDEFGHIJKLMNOPQRSTUVWXYZ0123456789'')"
    by (rule ext) (rule is_alnum_chars)
  then show ?thesis
    by (simp only: normalizeString_def toUpperCase_def strip_non_alnum_def)
qed

lemma upper_char_letters:
  "map upper_char ''abcdefghijklmnopqrstuvwxyz'' = ''ABCDEFGHIJKLMNOPQRSTUVWXYZ''"
  by code_simp

lemma upper_char_other:
  assumes "c \<notin> set ''abcdefghijklmnopqrstuvwxyz''"
  shows "upper_char c = c"
proof -
  from assms have "\<not> is_lower c"
    by (simp only: is_lower_chars not_False_eq_True)
  then show ?thesis by (rule upper_char_fixed)
qed

text \<open>
  C9, amended. A string button becomes a postback button whose payload is the prefix
  \<^verbatim>\<open>BOOTBOT_BUTTON_\<close> followed by the normalised title; \<^verbatim>\<open>["Yes"]\<close> gives the
  payload \<^verbatim>\<open>BOOTBOT_BUTTON_YES\<close>; and \<^verbatim>\<open>"Yes, please!"\<close> normalises to
  \<^verbatim>\<open>YESPLEASE\<close>. Normalising strips every character outside \<^verbatim>\<open>[A-Za-z0-9]\<close> and
  upper-cases the remainder: the letters \<^verbatim>\<open>a\<close> to \<^verbatim>\<open>z\<close> become \<^verbatim>\<open>A\<close> to
  \<^verbatim>\<open>Z\<close>, every other character stays.
\<close>

theorem formatButtons_string_button:
  "formatButtons (Some [Str ''Yes'']) =
     Some [Obj [(''type'', Str ''postback''), (''title'', Str ''Yes''),
                (''payload'', Str ''BOOTBOT_BUTTON_YES'')]]
   \<and> (\<forall>s. formatButtons (Some [Str s]) =
          Some [Obj [(''type'', Str ''postback''), (''title'', Str s),
                     (''payload'', Str (''BOOTBOT_BUTTON_'' @ normalizeString s))]])
   \<and> normalizeString ''Yes, please!'' = ''YESPLEASE''
   \<and> (\<forall>s. normalizeString s = map upper_char
          (filter (\<lambda>c. c \<in> set ''abcdefghijklmnopqrstuvwxyzABCDEFGHIJKLMNOPQRSTUVWXYZ0123456789'') s))
   \<and> map upper_char ''abcdefghijklmnopqrstuvwxyz'' = ''ABCDEFGHIJKLMNOPQRSTUVWXYZ''
   \<and> (\<forall>c. c \<notin> set ''abcdefghijklmnopqrstuvwxyz'' \<longrightarrow> upper_char c = c)"
proof (intro conjI allI impI)
  show "formatButtons (Some [Str ''Yes'']) =
     Some [Obj [(''type'', Str ''postback''), (''title'', Str ''Yes''),
                (''payload'', Str ''BOOTBOT_BUTTON_YES'')]]"
    by code_simp
  show "normalizeString ''Yes, please!'' = ''YESPLEASE''"
    by code_simp
  show "formatButtons (Some [Str s]) =
          Some [Obj [(''type'', Str ''postback''), (''title'', Str s),
                     (''payload'', Str (''BOOTBOT_BUTTON_'' @ normalizeString s))]]" for s
    by (simp add: formatButtons_def format_button_def)
  show "normalizeString s = map upper_char
          (filter (\<lambda>c. c \<in> set ''abcdefghijklmnopqrstuvwxyzABCDEFGHIJKLMNOPQRSTUVWXYZ0123456789'') s)" for s
    by (rule normalizeString_rule)
  show "map upper_char ''abcdefghijklmnopqrstuvwxyz'' = ''ABCDEFGHIJKLMNOPQRSTUVWXYZ''"
    by (rule upper_char_letters)
  show "upper_char c = c" if "c \<notin> set ''abcdefghijklmnopqrstuvwxyz''" for c
    using that by (rule upper_char_other)
qed

text \<open>
  A digit is not a lower-case letter and stays; \<^verbatim>\<open>"a-7"\<close> normalises to \<^verbatim>\<open>A7\<close>.
\<close>

theorem formatButtons_string_button_witness:
  "upper_char (CHR ''7'') = CHR ''7'' \<and> upper_char (CHR ''a'') = CHR ''A''
   \<and> normalizeString ''a-7'' = ''A7''"
proof -
  note rule = formatButtons_string_button
  from rule have fixed: "CHR ''7'' \<notin> set ''abcdefghijklmnopqrstuvwxyz'' \<longrightarrow> upper_char (CHR ''7'') = CHR ''7''"
    by blast
  then have seven: "upper_char (CHR ''7'') = CHR ''7''"
    by simp
  from rule have "map upper_char ''abcdefghijklmnopqrstuvwxyz'' = ''ABCDEFGHIJKLMNOPQRSTUVWXYZ''"
    by blast
  then have a: "upper_char (CHR ''a'') = CHR ''A''"
    by simp
  from rule have "normalizeString ''a-7'' = map upper_char
          (filter (\<lambda>c. c \<in> set ''abcdefghijklmnopqrstuvwxyzABCDEFGHIJKLMNOPQRSTUVWXYZ0123456789'') ''a-7'')"
    by blast
  also have "\<dots> = ''A7''"
    by (simp add: seven a)
  finally show ?thesis using seven a by simp
qed

subsection \<open>The emitter\<close>


lemma call_listeners_invoked:
  "invoked (snd (call_listeners name ls ev w)) = invoked w @ map (\<lambda>l. (name, lid l)) (reached ev ls)"
  by (induction ls arbitrary: w) (simp_all add: Let_def)

lemma call_listeners_completion:
  "fst (call_listeners name ls ev w) = Returned \<longleftrightarrow> (\<forall>l \<in> set ls. returns l ev)"
  by (induction ls arbitrary: w) (simp_all add: Let_def)



lemma reached_all: "(\<forall>l \<in> set ls. returns l ev) \<Longrightarrow> reached ev ls = ls"
  by (induction ls) simp_all

lemma reached_until: "(\<forall>l \<in> set pre. returns l ev) \<Longrightarrow> \<not> returns t ev \<Longrightarrow> reached ev (pre @ t # post) = pre @ [t]"
  by (induction pre) simp_all

lemma listeners_for_emitted [simp]: "listeners_for name (w\<lparr>emitted := x\<rparr>) = listeners_for name w"
  by (simp add: listeners_for_def)

text \<open>
  C5, as stated, fails: with two listeners for \<^verbatim>\<open>message\<close>, the first of which
  throws, the second is never called.
\<close>

theorem handleEvent_isolation_counterexample:
  "(''message'', 1) \<notin> set (invoked (snd (handleEvent ''message'' text_event None
       (world0\<lparr>listeners := [(''message'', thrower 0), (''message'', quiet 1)]\<rparr>))))
   \<and> fst (handleEvent ''message'' text_event None
       (world0\<lparr>listeners := [(''message'', thrower 0), (''message'', quiet 1)]\<rparr>)) = Thrown"
  by (simp add: handleEvent_def emit_def listeners_for_def world0_def thrower_def quiet_def Let_def)

text \<open>
  C5, amended. An emission calls the listeners registered under the event name in
  registration order up to the first one that throws, that one included, and none after
  it; the exception reaches the caller of \<open>_handleEvent\<close>. When no listener throws,
  every listener registered under the name is called.
\<close>

theorem handleEvent_reaches:
  "invoked (snd (handleEvent name ev d w))
     = invoked w @ map (\<lambda>l. (name, lid l)) (reached ev (listeners_for name w))
   \<and> (fst (handleEvent name ev d w) = Returned \<longleftrightarrow> (\<forall>l \<in> set (listeners_for name w). returns l ev))
   \<and> ((\<forall>l \<in> set (listeners_for name w). returns l ev)
        \<longrightarrow> reached ev (listeners_for name w) = listeners_for name w)
   \<and> (\<forall>pre t post. listeners_for name w = pre @ t # post \<and> (\<forall>l \<in> set pre. returns l ev) \<and> \<not> returns t ev
        \<longrightarrow> reached ev (listeners_for name w) = pre @ [t])"
  by (simp add: handleEvent_def emit_def call_listeners_invoked call_listeners_completion
        reached_all reached_until)

text \<open>
  Two listeners that return are both called, the listener of another event is not; of
  three listeners whose second throws, the first two are called.
\<close>

theorem handleEvent_reaches_witness:
  "invoked (snd (handleEvent ''message'' text_event None
       (world0\<lparr>listeners := [(''message'', quiet 0), (''read'', quiet 2), (''message'', quiet 1)]\<rparr>)))
     = [(''message'', 0), (''message'', 1)]
   \<and> invoked (snd (handleEvent ''message'' text_event None
       (world0\<lparr>listeners := [(''message'', quiet 0), (''message'', thrower 1), (''message'', quiet 2)]\<rparr>)))
     = [(''message'', 0), (''message'', 1)]"
  using handleEvent_reaches [of "''message''" text_event None
          "world0\<lparr>listeners := [(''message'', quiet 0), (''read'', quiet 2), (''message'', quiet 1)]\<rparr>"]
        handleEvent_reaches [of "''message''" text_event None
          "world0\<lparr>listeners := [(''message'', quiet 0), (''message'', thrower 1), (''message'', quiet 2)]\<rparr>"]
  by (simp add: listeners_for_def world0_def thrower_def quiet_def)

subsection \<open>The webhook handler\<close>
























lemma base_dispatches_single:
  "base_dispatches [(n, ev, d)] = (if n \<in> set base_events then 1 else 0)"
  by (simp add: base_dispatches_def)
















text \<open>
  C3 does not hold of the code: for a body whose object is \<^verbatim>\<open>user\<close> the handler
  dispatches nothing and returns without sending a status.
\<close>

theorem non_page_not_acknowledged:
  "post_webhook bot0 (batch ''user'' [text_event]) world0 = ((Returned, None), world0)"
  by (simp add: post_webhook_def batch_def)

subsection \<open>The profile cache\<close>

lemma map_of_set_prop: "map_of (set_prop k v ps) k = Some v"
  by (induction ps) auto

lemma get_prop_set_prop: "get_prop (Obj (set_prop k v ps)) k = v"
  by (simp add: map_of_set_prop)

lemma stamp_id_truthy: "stamp_id fetched userId = Inr profile \<Longrightarrow> truthy profile"
  by (cases fetched) auto

lemma saveUserProfiles_effects: "effects (saveUserProfiles env ps w) = effects w"
  by (simp add: saveUserProfiles_def Let_def)

lemma saveUserProfiles_file:
  "files (saveUserProfiles env ps w) (filename env) = JSON_stringify (Obj ps)"
  by (simp add: saveUserProfiles_def JSON_stringify_def Let_def)

lemma getOrFetch_hit:
  "truthy (get_prop (Obj (userProfiles st)) userId) \<Longrightarrow>
     getOrFetchUserProfile env this net now now' userId (st, w)
       = (Resolved (get_prop (Obj (userProfiles st)) userId), st, w)"
  by (simp add: getOrFetchUserProfile_def)

lemma getOrFetch_miss:
  assumes miss: "\<not> truthy (get_prop (Obj (userProfiles st)) userId)"
    and ok: "net (length (fetches (effects w))) (profile_request this userId)
               = Inr (Response (Inr fetched))"
    and stamp: "stamp_id fetched userId = Inr profile"
  shows "getOrFetchUserProfile env this net now now' userId (st, w) =
     ((case saveUser env (user_row profile) of None \<Rightarrow> Resolved profile | Some err \<Rightarrow> Rejected err),
      (if 10000 \<le> now - cacheTs st
       then st\<lparr>userProfiles := set_prop userId profile (userProfiles st), cacheTs := now'\<rparr>
       else st\<lparr>userProfiles := set_prop userId profile (userProfiles st)\<rparr>),
      (if 10000 \<le> now - cacheTs st
       then (saveUserProfiles env (set_prop userId profile (userProfiles st))
               (w\<lparr>effects := effects w @ [Fetch (profile_request this userId)]\<rparr>))
             \<lparr>effects := effects w @ [Fetch (profile_request this userId), SaveUser (user_row profile)]\<rparr>
       else w\<lparr>effects := effects w @ [Fetch (profile_request this userId), SaveUser (user_row profile)]\<rparr>))"
proof -
  have g: "getUserProfile this net userId w =
             (Resolved fetched, w\<lparr>effects := effects w @ [Fetch (profile_request this userId)]\<rparr>)"
    using ok by (simp add: getUserProfile_unfold Let_def)
  show ?thesis
    using miss stamp
    by (simp add: getOrFetchUserProfile_def g Let_def saveUserProfiles_effects split: option.splits)
qed

lemma fetches_tail:
  "fetches (es @ [Fetch rq, SaveUser row]) = fetches es @ [Fetch rq]"
  by (simp add: fetches_def)

lemma getOrFetch_miss_effects:
  assumes "\<not> truthy (get_prop (Obj (userProfiles st)) userId)"
    and "net (length (fetches (effects w))) (profile_request this userId)
               = Inr (Response (Inr fetched))"
    and "stamp_id fetched userId = Inr profile"
  shows "effects (snd (snd (getOrFetchUserProfile env this net now now' userId (st, w))))
           = effects w @ [Fetch (profile_request this userId), SaveUser (user_row profile)]"
    and "userProfiles (fst (snd (getOrFetchUserProfile env this net now now' userId (st, w))))
           = set_prop userId profile (userProfiles st)"
    and "fst (getOrFetchUserProfile env this net now now' userId (st, w))
           = (case saveUser env (user_row profile) of None \<Rightarrow> Resolved profile | Some err \<Rightarrow> Rejected err)"
  by (simp_all add: getOrFetch_miss [where net = net, OF assms])

text \<open>
  C6, as stated, fails. With the network down the first call stores nothing: the
  fetched profile is \<^verbatim>\<open>undefined\<close>, stamping it throws, and the promise rejects. The
  second call misses again and fetches again: two requests.
\<close>

theorem getOrFetch_twice_counterexample:
  "length (fetches (effects (snd (snd
      (getOrFetchUserProfile env0 bot0 net_down 0 0 ''1234''
         (snd (getOrFetchUserProfile env0 bot0 net_down 0 0 ''1234'' (state0, world0)))))))) = 2
   \<and> fst (getOrFetchUserProfile env0 bot0 net_down 0 0 ''1234'' (state0, world0))
        = Rejected ''TypeError: Cannot set property id''"
  by (simp add: getOrFetchUserProfile_def getUserProfile_unfold net_down_def state0_def world0_def
        object_prototype_keys_def fetches_def Let_def)

text \<open>
  C6, amended. When the user is not in the cache and the remote fetch returns a JSON
  object, two calls in sequence send exactly one request: the first fetches, stamps
  \<^verbatim>\<open>id = userId\<close> and stores the profile (and resolves with it when the user store
  accepts the row); the second, whatever the network and the clock, resolves with the
  stored profile and changes nothing.
\<close>

theorem getOrFetch_twice:
  assumes miss: "\<not> truthy (get_prop (Obj (userProfiles st)) userId)"
    and ok: "net (length (fetches (effects w))) (profile_request this userId)
               = Inr (Response (Inr (Obj props)))"
  shows "let profile = Obj (set_prop ''id'' (Str userId) props);
             r1 = getOrFetchUserProfile env this net now now' userId (st, w);
             r2 = getOrFetchUserProfile env this net2 later later' userId (snd r1)
         in fetches (effects (snd (snd r1))) = fetches (effects w) @ [Fetch (profile_request this userId)]
          \<and> get_prop (Obj (userProfiles (fst (snd r1)))) userId = profile
          \<and> (saveUser env (user_row profile) = None \<longrightarrow> fst r1 = Resolved profile)
          \<and> r2 = (Resolved profile, snd r1)
          \<and> fetches (effects (snd (snd r2))) = fetches (effects w) @ [Fetch (profile_request this userId)]"
proof -
  define profile where "profile = Obj (set_prop ''id'' (Str userId) props)"
  define r1 where "r1 = getOrFetchUserProfile env this net now now' userId (st, w)"
  define r2 where "r2 = getOrFetchUserProfile env this net2 later later' userId (snd r1)"
  have stamp: "stamp_id (Obj props) userId = Inr profile"
    by (simp add: profile_def)
  note first = getOrFetch_miss_effects [where net = net and env = env and now = now and now' = now',
      OF miss ok stamp, folded r1_def]
  have f1: "fetches (effects (snd (snd r1))) = fetches (effects w) @ [Fetch (profile_request this userId)]"
    by (simp add: first(1) fetches_tail)
  have c1: "get_prop (Obj (userProfiles (fst (snd r1)))) userId = profile"
    by (simp only: first(2) get_prop_set_prop)
  have p1: "saveUser env (user_row profile) = None \<longrightarrow> fst r1 = Resolved profile"
    by (simp add: first(3))
  have "truthy (get_prop (Obj (userProfiles (fst (snd r1)))) userId)"
    by (simp only: c1 profile_def truthy.simps)
  from getOrFetch_hit [OF this, of env this net2 later later' "snd (snd r1)"]
  have h2: "r2 = (Resolved profile, snd r1)"
    by (simp only: r2_def c1 prod.collapse)
  then have f2: "fetches (effects (snd (snd r2))) = fetches (effects w) @ [Fetch (profile_request this userId)]"
    by (simp add: f1)
  from f1 c1 p1 h2 f2 show ?thesis
    unfolding Let_def profile_def [symmetric] r1_def [symmetric] r2_def [symmetric]
    by blast
qed

text \<open>
  An empty cache and a network that returns a profile: one request over the two calls,
  and the second call resolves with the stamped profile although the network is down.
\<close>

theorem getOrFetch_twice_witness:
  "fetches (effects (snd (snd
      (getOrFetchUserProfile env0 bot0 net_down 20000 20001 ''1234''
         (snd (getOrFetchUserProfile env0 bot0 net_profile 10 11 ''1234'' (state0, world0)))))))
     = [Fetch (profile_request bot0 ''1234'')]
   \<and> fst (getOrFetchUserProfile env0 bot0 net_down 20000 20001 ''1234''
         (snd (getOrFetchUserProfile env0 bot0 net_profile 10 11 ''1234'' (state0, world0))))
     = Resolved (Obj [(''first_name'', Str ''Ada''), (''timezone'', Num 1), (''id'', Str ''1234'')])"
proof -
  have miss: "\<not> truthy (get_prop (Obj (userProfiles state0)) ''1234'')"
    by (simp add: state0_def object_prototype_keys_def)
  have ok: "net_profile (length (fetches (effects world0))) (profile_request bot0 ''1234'')
              = Inr (Response (Inr (Obj [(''first_name'', Str ''Ada''), (''timezone'', Num 1)])))"
    by (simp add: net_profile_def remote_profile_def)
  have e: "fetches (effects world0) = []"
    by (simp add: world0_def fetches_def)
  from getOrFetch_twice [where net = net_profile and env = env0 and now = 10 and now' = 11
      and ?net2.0 = net_down and later = 20000 and later' = 20001, OF miss ok]
  show ?thesis
    by (simp add: Let_def e)
qed

lemma to_json_fixed:
  "json_value v \<longrightarrow> to_json v = Some v"
  "json_elements xs \<longrightarrow> to_json_elements xs = xs"
  "json_properties ps \<longrightarrow> to_json_properties ps = ps"
  by (induction v and xs and ps rule: json_value_json_elements_json_properties.induct) auto

lemma stringify_parse:
  "json_properties ps \<Longrightarrow> map_option JSON_parse (JSON_stringify (Obj ps)) = Some (Inr (Obj ps))"
  by (simp add: JSON_stringify_def JSON_parse_def to_json_fixed)

lemma json_properties_set_prop:
  "json_properties ps \<Longrightarrow> json_value v \<Longrightarrow> json_properties (set_prop k v ps)"
  by (induction ps) auto

text \<open>
  C7, as stated, fails. Let the remote API answer with an empty array. The array takes
  the stamped \<^verbatim>\<open>id\<close> as a named property and goes into the cache; the flush writes
  the array without it, and a restart loads a profile that differs from the cached one.
\<close>

theorem flush_round_trip_counterexample:
  "userProfiles (fst (snd (getOrFetchUserProfile env0 bot0 net_array 10000 10001 ''1234'' (state0, world0))))
     = [(''1234'', Arr [] [(''id'', Str ''1234'')])]
   \<and> users_init env0 20000
        (snd (snd (getOrFetchUserProfile env0 bot0 net_array 10000 10001 ''1234'' (state0, world0))))
     = Loaded \<lparr>userProfiles = [(''1234'', Arr [] [])], cacheTs = 20000\<rparr>
   \<and> users_init env0 20000
        (snd (snd (getOrFetchUserProfile env0 bot0 net_array 10000 10001 ''1234'' (state0, world0))))
     \<noteq> Loaded \<lparr>userProfiles = userProfiles (fst (snd
          (getOrFetchUserProfile env0 bot0 net_array 10000 10001 ''1234'' (state0, world0)))),
        cacheTs = 20000\<rparr>"
  by (simp add: getOrFetchUserProfile_def getUserProfile_unfold net_array_def state0_def world0_def
        env0_def object_prototype_keys_def fetches_def saveUserProfiles_def JSON_stringify_def
        JSON_parse_def users_init_def loadUserProfiles_def Let_def)

text \<open>
  C7, amended. A flush happens in a call that misses, fetches a value that takes the
  stamp, and finds the last flush at least 10 seconds old. The file then holds the
  serialisation of the whole mapping, the new entry included, and the timestamp is
  reset. When the cached profiles and the new one are JSON data (objects as the remote
  API returns them, not arrays carrying a stamped \<^verbatim>\<open>id\<close>), loading the file, as a
  fresh instance of the module does, gives the mapping again.
\<close>

theorem flush_round_trip:
  assumes miss: "\<not> truthy (get_prop (Obj (userProfiles st)) userId)"
    and ok: "net (length (fetches (effects w))) (profile_request this userId)
               = Inr (Response (Inr fetched))"
    and stamp: "stamp_id fetched userId = Inr profile"
    and due: "10000 \<le> now - cacheTs st"
  shows "let r = getOrFetchUserProfile env this net now now' userId (st, w);
             st' = fst (snd r);
             w' = snd (snd r)
         in userProfiles st' = set_prop userId profile (userProfiles st)
          \<and> cacheTs st' = now'
          \<and> files w' (filename env) = JSON_stringify (Obj (userProfiles st'))
          \<and> (json_properties (userProfiles st) \<and> json_value profile \<longrightarrow>
                loadUserProfiles env w' = Inr (Obj (userProfiles st'))
              \<and> users_init env restart w'
                  = Loaded \<lparr>userProfiles = userProfiles st', cacheTs = restart\<rparr>)"
proof -
  define r where "r = getOrFetchUserProfile env this net now now' userId (st, w)"
  define ps where "ps = set_prop userId profile (userProfiles st)"
  have r: "snd r = (st\<lparr>userProfiles := ps, cacheTs := now'\<rparr>,
             (saveUserProfiles env ps (w\<lparr>effects := effects w @ [Fetch (profile_request this userId)]\<rparr>))
               \<lparr>effects := effects w @ [Fetch (profile_request this userId), SaveUser (user_row profile)]\<rparr>)"
    using due by (simp add: r_def ps_def getOrFetch_miss [where net = net, OF miss ok stamp])
  have a: "userProfiles (fst (snd r)) = ps" and b: "cacheTs (fst (snd r)) = now'"
    by (simp_all add: r)
  have c: "files (snd (snd r)) (filename env) = JSON_stringify (Obj ps)"
    by (simp add: r saveUserProfiles_file)
  have d: "loadUserProfiles env (snd (snd r)) = Inr (Obj ps)"
    if "json_properties (userProfiles st)" "json_value profile"
  proof -
    from that have "json_properties ps"
      unfolding ps_def by (rule json_properties_set_prop)
    then show ?thesis
      by (simp add: loadUserProfiles_def c JSON_stringify_def JSON_parse_def to_json_fixed)
  qed
  have e: "users_init env restart (snd (snd r)) = Loaded \<lparr>userProfiles = ps, cacheTs = restart\<rparr>"
    if "json_properties (userProfiles st)" "json_value profile"
    by (simp add: users_init_def d [OF that])
  from a b c d e show ?thesis
    unfolding Let_def r_def [symmetric] ps_def [symmetric] by simp
qed

text \<open>
  A first profile fetched 10 seconds after start: the file holds the text of the cache,
  and a restart loads the same cache.
\<close>

theorem flush_round_trip_witness:
  "files (snd (snd (getOrFetchUserProfile env0 bot0 net_profile 10000 10001 ''1234'' (state0, world0))))
      (filename env0) = Some (JsonText (Obj cached_profiles))
   \<and> users_init env0 20000
        (snd (snd (getOrFetchUserProfile env0 bot0 net_profile 10000 10001 ''1234'' (state0, world0))))
      = Loaded \<lparr>userProfiles = cached_profiles, cacheTs = 20000\<rparr>
   \<and> userProfiles (fst (snd (getOrFetchUserProfile env0 bot0 net_profile 10000 10001 ''1234''
        (state0, world0)))) = cached_profiles"
proof -
  have miss: "\<not> truthy (get_prop (Obj (userProfiles state0)) ''1234'')"
    by (simp add: state0_def object_prototype_keys_def)
  have ok: "net_profile (length (fetches (effects world0))) (profile_request bot0 ''1234'')
              = Inr (Response (Inr remote_profile))"
    by (simp add: net_profile_def)
  have stamp: "stamp_id remote_profile ''1234''
                = Inr (Obj [(''first_name'', Str ''Ada''), (''timezone'', Num 1), (''id'', Str ''1234'')])"
    by (simp add: remote_profile_def)
  have ps: "set_prop ''1234'' (Obj [(''first_name'', Str ''Ada''), (''timezone'', Num 1), (''id'', Str ''1234'')])
              (userProfiles state0) = cached_profiles"
    by (simp add: state0_def cached_profiles_def)
  have due: "10000 \<le> (10000::int) - cacheTs state0"
    by (simp add: state0_def)
  have clean: "json_properties (userProfiles state0)
     \<and> json_value (Obj [(''first_name'', Str ''Ada''), (''timezone'', Num 1), (''id'', Str ''1234'')])"
    by (simp add: state0_def)
  have ser: "JSON_stringify (Obj cached_profiles) = Some (JsonText (Obj cached_profiles))"
    by (simp add: JSON_stringify_def cached_profiles_def)
  from flush_round_trip [where net = net_profile and env = env0 and now' = 10001 and restart = 20000,
        OF miss ok stamp due]
  show ?thesis
    using clean by (simp add: Let_def ps ser)
qed

end
